theory Spec2Isabelle
  imports Complex_Main
begin

section \<open>JavaScript numbers\<close>

text \<open>
  The calculations of \<^verbatim>\<open>src/js/calculations.js\<close> work on JavaScript numbers. A number
  is modelled as a real, or as one of the three values that are not finite. Arithmetic
  on finite values is exact: the rounding of IEEE doubles is not part of the model. Zero
  carries no sign; where the sign of a zero decides the sign of an infinity, the zero
  is read as \<open>+0\<close>.
\<close>

datatype jsnum = Fin real | PInf | NInf | NaN

instantiation jsnum :: "{plus, minus, uminus, times, inverse, ord}"
begin

fun plus_jsnum :: "jsnum \<Rightarrow> jsnum \<Rightarrow> jsnum" where
  "plus_jsnum NaN _ = NaN"
| "plus_jsnum _ NaN = NaN"
| "plus_jsnum (Fin a) (Fin b) = Fin (a + b)"
| "plus_jsnum PInf NInf = NaN"
| "plus_jsnum NInf PInf = NaN"
| "plus_jsnum PInf _ = PInf"
| "plus_jsnum _ PInf = PInf"
| "plus_jsnum NInf _ = NInf"
| "plus_jsnum _ NInf = NInf"

fun uminus_jsnum :: "jsnum \<Rightarrow> jsnum" where
  "uminus_jsnum (Fin a) = Fin (- a)"
| "uminus_jsnum PInf = NInf"
| "uminus_jsnum NInf = PInf"
| "uminus_jsnum NaN = NaN"

definition minus_jsnum :: "jsnum \<Rightarrow> jsnum \<Rightarrow> jsnum" where
  "minus_jsnum x y = x + (- y)"

fun times_jsnum :: "jsnum \<Rightarrow> jsnum \<Rightarrow> jsnum" where
  "times_jsnum NaN _ = NaN"
| "times_jsnum _ NaN = NaN"
| "times_jsnum (Fin a) (Fin b) = Fin (a * b)"
| "times_jsnum (Fin a) PInf = (if a = 0 then NaN else if 0 < a then PInf else NInf)"
| "times_jsnum (Fin a) NInf = (if a = 0 then NaN else if 0 < a then NInf else PInf)"
| "times_jsnum PInf (Fin b) = (if b = 0 then NaN else if 0 < b then PInf else NInf)"
| "times_jsnum NInf (Fin b) = (if b = 0 then NaN else if 0 < b then NInf else PInf)"
| "times_jsnum PInf PInf = PInf"
| "times_jsnum PInf NInf = NInf"
| "times_jsnum NInf PInf = NInf"
| "times_jsnum NInf NInf = PInf"

fun divide_jsnum :: "jsnum \<Rightarrow> jsnum \<Rightarrow> jsnum" where
  "divide_jsnum NaN _ = NaN"
| "divide_jsnum _ NaN = NaN"
| "divide_jsnum (Fin a) (Fin b) =
     (if b \<noteq> 0 then Fin (a / b)
      else if a = 0 then NaN else if 0 < a then PInf else NInf)"
| "divide_jsnum (Fin a) PInf = Fin 0"
| "divide_jsnum (Fin a) NInf = Fin 0"
| "divide_jsnum PInf (Fin b) = (if 0 \<le> b then PInf else NInf)"
| "divide_jsnum NInf (Fin b) = (if 0 \<le> b then NInf else PInf)"
| "divide_jsnum PInf PInf = NaN"
| "divide_jsnum PInf NInf = NaN"
| "divide_jsnum NInf PInf = NaN"
| "divide_jsnum NInf NInf = NaN"

definition inverse_jsnum :: "jsnum \<Rightarrow> jsnum" where
  "inverse_jsnum x = divide (Fin 1) x"

text \<open>The relational operators \<^verbatim>\<open><\<close> and \<^verbatim>\<open><=\<close>: every comparison with NaN is false.\<close>

fun less_jsnum :: "jsnum \<Rightarrow> jsnum \<Rightarrow> bool" where
  "less_jsnum NaN _ = False"
| "less_jsnum _ NaN = False"
| "less_jsnum (Fin a) (Fin b) = (a < b)"
| "less_jsnum _ NInf = False"
| "less_jsnum NInf _ = True"
| "less_jsnum PInf _ = False"
| "less_jsnum _ PInf = True"

fun less_eq_jsnum :: "jsnum \<Rightarrow> jsnum \<Rightarrow> bool" where
  "less_eq_jsnum NaN _ = False"
| "less_eq_jsnum _ NaN = False"
| "less_eq_jsnum (Fin a) (Fin b) = (a \<le> b)"
| "less_eq_jsnum NInf _ = True"
| "less_eq_jsnum _ PInf = True"
| "less_eq_jsnum _ NInf = False"
| "less_eq_jsnum PInf _ = False"

instance ..

end

text \<open>Strict equality \<^verbatim>\<open>===\<close> on numbers: NaN is not equal to itself.\<close>

fun strict_eq :: "jsnum \<Rightarrow> jsnum \<Rightarrow> bool" where
  "strict_eq NaN _ = False"
| "strict_eq _ NaN = False"
| "strict_eq x y = (x = y)"

text \<open>\<^verbatim>\<open>Math.max\<close> of two numbers: NaN if either is NaN.\<close>

fun Math_max :: "jsnum \<Rightarrow> jsnum \<Rightarrow> jsnum" where
  "Math_max NaN _ = NaN"
| "Math_max _ NaN = NaN"
| "Math_max (Fin a) (Fin b) = Fin (max a b)"
| "Math_max PInf _ = PInf"
| "Math_max _ PInf = PInf"
| "Math_max NInf y = y"
| "Math_max x NInf = x"

text \<open>
  \<^verbatim>\<open>Math.pow(base, exponent)\<close>, following the case list of the language definition
  (Number::exponentiate) with unsigned zero.
\<close>

definition is_integer :: "real \<Rightarrow> bool" where
  "is_integer e = (e = of_int \<lfloor>e\<rfloor>)"

fun Math_pow :: "jsnum \<Rightarrow> jsnum \<Rightarrow> jsnum" where
  "Math_pow _ NaN = NaN"
| "Math_pow b (Fin e) =
     (if e = 0 then Fin 1
      else case b of
        NaN \<Rightarrow> NaN
      | PInf \<Rightarrow> (if 0 < e then PInf else Fin 0)
      | NInf \<Rightarrow> (if 0 < e then (if is_integer e \<and> odd \<lfloor>e\<rfloor> then NInf else PInf) else Fin 0)
      | Fin a \<Rightarrow>
          (if a = 0 then (if 0 < e then Fin 0 else PInf)
           else if is_integer e then Fin (power_int a \<lfloor>e\<rfloor>)
           else if a < 0 then NaN
           else Fin (a powr e)))"
| "Math_pow b PInf =
     (case b of
        NaN \<Rightarrow> NaN
      | PInf \<Rightarrow> PInf
      | NInf \<Rightarrow> PInf
      | Fin a \<Rightarrow> (if 1 < \<bar>a\<bar> then PInf else if \<bar>a\<bar> = 1 then NaN else Fin 0))"
| "Math_pow b NInf =
     (case b of
        NaN \<Rightarrow> NaN
      | PInf \<Rightarrow> Fin 0
      | NInf \<Rightarrow> Fin 0
      | Fin a \<Rightarrow> (if 1 < \<bar>a\<bar> then Fin 0 else if \<bar>a\<bar> = 1 then NaN else PInf))"

text \<open>
  An array read \<^verbatim>\<open>a[i]\<close> gives \<^verbatim>\<open>undefined\<close> outside the array, here \<open>None\<close>;
  arithmetic turns \<^verbatim>\<open>undefined\<close> into NaN.
\<close>

definition array_get :: "'a list \<Rightarrow> int \<Rightarrow> 'a option" where
  "array_get xs i = (if 0 \<le> i \<and> i < int (length xs) then Some (xs ! nat i) else None)"

fun to_number :: "jsnum option \<Rightarrow> jsnum" where
  "to_number None = NaN"
| "to_number (Some x) = x"



section \<open>Loan amortization\<close>

text \<open>
  A row of an amortization table. The field \<open>date\<close> is
  \<^verbatim>\<open>Utils.addMonths(startDate, i - 1)\<close> in the source, a computation of the platform's
  calendar; the row keeps the number of months added to the start date. The number of
  months of a loan is a count of installments, a natural number.
\<close>

record row =
  number :: nat
  date :: nat
  payment :: jsnum
  interest :: jsnum
  amortization :: jsnum
  balance :: jsnum

subsection \<open>SAC: constant amortization\<close>

text \<open>The body of the loop of \<^verbatim>\<open>generateSACTable\<close>, on the state (balance, table).\<close>

definition sac_body :: "jsnum \<Rightarrow> jsnum \<Rightarrow> nat \<Rightarrow> jsnum \<times> row list \<Rightarrow> jsnum \<times> row list" where
  "sac_body = (\<lambda>monthlyRate amortization i (balance, table).
      let interest = balance * monthlyRate;
          payment = amortization + interest;
          balance = balance - amortization
      in (balance,
          table @ [\<lparr>number = i, date = i - 1, payment = payment, interest = interest,
                    amortization = amortization, balance = Math_max (Fin 0) balance\<rparr>]))"

definition generateSACTable :: "jsnum \<Rightarrow> jsnum \<Rightarrow> nat \<Rightarrow> row list" where
  "generateSACTable principal' annualRate months =
     (let monthlyRate = annualRate / Fin 12;
          amortization = principal' / Fin (real months)
      in snd (fold (sac_body monthlyRate amortization) [1..<Suc months] (principal', [])))"

definition getSACRemainingBalance :: "jsnum \<Rightarrow> nat \<Rightarrow> nat \<Rightarrow> jsnum" where
  "getSACRemainingBalance principal' months paidMonths =
     (let amortization = principal' / Fin (real months)
      in Math_max (Fin 0) (principal' - (amortization * Fin (real paidMonths))))"

subsection \<open>PRICE: constant payment\<close>






section \<open>Property metrics\<close>

definition calculateCapRate :: "jsnum \<Rightarrow> jsnum \<Rightarrow> jsnum" where
  "calculateCapRate noi propertyValue =
     (if strict_eq propertyValue (Fin 0) then Fin 0 else noi / propertyValue)"

definition calculateCashOnCash :: "jsnum \<Rightarrow> jsnum \<Rightarrow> jsnum" where
  "calculateCashOnCash annualCashFlow cashInvested =
     (if strict_eq cashInvested (Fin 0) then Fin 0 else annualCashFlow / cashInvested)"

definition calculateLTV :: "jsnum \<Rightarrow> jsnum \<Rightarrow> jsnum" where
  "calculateLTV loanAmount propertyValue =
     (if strict_eq propertyValue (Fin 0) then Fin 0 else loanAmount / propertyValue)"

record appreciation =
  totalAppreciation :: jsnum
  percentAppreciation :: jsnum
  annualizedReturn :: jsnum

definition calculateAppreciation :: "jsnum \<Rightarrow> jsnum \<Rightarrow> jsnum \<Rightarrow> appreciation" where
  "calculateAppreciation purchasePrice currentValue years =
     (let totalAppreciation = currentValue - purchasePrice;
          percentAppreciation =
            (if Fin 0 < purchasePrice then totalAppreciation / purchasePrice else Fin 0);
          annualizedReturn =
            (if Fin 0 < years
             then Math_pow (currentValue / purchasePrice) (Fin 1 / years) - Fin 1
             else Fin 0)
      in \<lparr>totalAppreciation = totalAppreciation,
          percentAppreciation = percentAppreciation,
          annualizedReturn = annualizedReturn\<rparr>)"


section \<open>Statement builders\<close>












section \<open>Valuation: discounted cash flow\<close>

record dcf =
  pvCashFlows :: jsnum
  terminalValue :: jsnum
  pvTerminalValue :: jsnum
  enterpriseValue :: jsnum

text \<open>
  \<^verbatim>\<open>cashFlows.forEach((cf, index) => ...)\<close> visits the elements with their indices from 0
  and adds to \<^verbatim>\<open>presentValue\<close>.
\<close>

definition calculateDCF :: "jsnum list \<Rightarrow> jsnum \<Rightarrow> jsnum \<Rightarrow> dcf" where
  "calculateDCF cashFlows discountRate terminalGrowthRate =
     (let presentValue =
            fold (\<lambda>(cf, index) presentValue.
                    let year = index + 1;
                        pv = cf / Math_pow (Fin 1 + discountRate) (Fin (real year))
                    in presentValue + pv)
                 (zip cashFlows [0..<length cashFlows]) (Fin 0);
          lastCashFlow = array_get cashFlows (int (length cashFlows) - 1);
          terminalValue = (to_number lastCashFlow * (Fin 1 + terminalGrowthRate)) /
                          (discountRate - terminalGrowthRate);
          pvTerminalValue =
            terminalValue / Math_pow (Fin 1 + discountRate) (Fin (real (length cashFlows)));
          enterpriseValue = presentValue + pvTerminalValue
      in \<lparr>pvCashFlows = presentValue, terminalValue = terminalValue,
          pvTerminalValue = pvTerminalValue, enterpriseValue = enterpriseValue\<rparr>)"


section \<open>Consortium\<close>




section \<open>Closed forms of the schedules\<close>

text \<open>
  The rows that the two loops produce on finite inputs, written without the loop. They
  are used in the proofs only: the lemmas \<open>generateSACTable_Fin\<close> and
  \<open>generatePRICETable_Fin\<close> show that the loops compute them.
\<close>

definition sac_row :: "real \<Rightarrow> real \<Rightarrow> real \<Rightarrow> nat \<Rightarrow> row" where
  "sac_row P r a i =
     \<lparr>number = i, date = i - 1,
      payment = Fin (a + (P - real (i - 1) * a) * r),
      interest = Fin ((P - real (i - 1) * a) * r),
      amortization = Fin a,
      balance = Fin (max 0 (P - real i * a))\<rparr>"





section \<open>Finite arithmetic\<close>

lemma minus_Fin [simp]: "Fin a - Fin b = Fin (a - b)"
  by (simp add: minus_jsnum_def)

lemma is_integer_of_nat [simp]: "is_integer (real n)"
  by (simp add: is_integer_def)

lemma is_integer_numeral [simp]: "is_integer (numeral k)"
  by (simp add: is_integer_def)

lemma is_integer_1 [simp]: "is_integer 1"
  by (simp add: is_integer_def)






section \<open>The SAC schedule\<close>

lemma sac_body_Fin:
  "sac_body (Fin r) (Fin a) (Suc m) (Fin (P - real m * a), tbl) =
     (Fin (P - real (Suc m) * a), tbl @ [sac_row P r a (Suc m)])"
  by (simp add: sac_body_def sac_row_def algebra_simps)

lemma sac_fold:
  "fold (sac_body (Fin r) (Fin a)) [1..<Suc m] (Fin P, []) =
     (Fin (P - real m * a), map (sac_row P r a) [1..<Suc m])"
proof (induction m)
  case 0
  show ?case by simp
next
  case (Suc m)
  have "fold (sac_body (Fin r) (Fin a)) [1..<Suc (Suc m)] (Fin P, []) =
        sac_body (Fin r) (Fin a) (Suc m) (Fin (P - real m * a), map (sac_row P r a) [1..<Suc m])"
    using Suc.IH by simp
  also have "\<dots> = (Fin (P - real (Suc m) * a), map (sac_row P r a) [1..<Suc m] @ [sac_row P r a (Suc m)])"
    by (rule sac_body_Fin)
  finally show ?case by simp
qed

lemma generateSACTable_Fin:
  assumes "0 < n"
  shows "generateSACTable (Fin P) (Fin rate) n =
           map (sac_row P (rate / 12) (P / real n)) [1..<Suc n]"
proof -
  have r: "Fin rate / Fin 12 = Fin (rate / 12)" by simp
  have a: "Fin P / Fin (real n) = Fin (P / real n)" using assms by simp
  show ?thesis
    unfolding generateSACTable_def Let_def r a sac_fold by simp
qed

lemma sac_scenario:
  "generateSACTable (Fin 120000) (Fin (12 / 100)) 12 ! 0 =
     \<lparr>number = 1, date = 0, payment = Fin 11200, interest = Fin 1200,
      amortization = Fin 10000, balance = Fin 110000\<rparr>"
  by (simp add: generateSACTable_Fin sac_row_def upt_rec)




section \<open>The PRICE schedule\<close>













section \<open>The remaining balance of a PRICE loan\<close>







section \<open>Balances never rise\<close>








section \<open>The income statement\<close>




section \<open>The cash-flow statement\<close>





section \<open>Discounted cash flow\<close>



text \<open>
  Claim C10. On the empty sequence \<open>calculateDCF\<close> returns pvCashFlows = 0, and its
  terminalValue, pvTerminalValue and enterpriseValue are NaN, for every discount rate
  and terminal growth rate: the read of the last element is out of range. That read,
  \<^verbatim>\<open>cashFlows[cashFlows.length - 1]\<close>, is out of range exactly when the sequence is
  empty.
\<close>

theorem dcf_empty:
  "calculateDCF [] discountRate terminalGrowthRate =
     \<lparr>pvCashFlows = Fin 0, terminalValue = NaN, pvTerminalValue = NaN, enterpriseValue = NaN\<rparr>
   \<and> (array_get cashFlows (int (length cashFlows) - 1) = None) = (cashFlows = [])"
  by (auto simp add: calculateDCF_def Let_def array_get_def)


section \<open>Consortium cost\<close>




section \<open>Division guards of the property metrics\<close>

text \<open>
  With a denominator 0 the cap rate, the cash-on-cash return, the loan-to-value ratio
  and the percent appreciation are 0.
\<close>

lemma ratio_guards:
  "calculateCapRate noi (Fin 0) = Fin 0"
  "calculateCashOnCash annualCashFlow (Fin 0) = Fin 0"
  "calculateLTV loanAmount (Fin 0) = Fin 0"
  "percentAppreciation (calculateAppreciation (Fin 0) currentValue years) = Fin 0"
  by (simp_all add: calculateCapRate_def calculateCashOnCash_def calculateLTV_def
        calculateAppreciation_def Let_def)

text \<open>
  Claim C8. The annualized return of \<open>calculateAppreciation\<close> divides by the purchase
  price too, and is guarded by \<^verbatim>\<open>years > 0\<close> only: at purchase price 0, current value
  100 and 1 year it is \<open>Math.pow(100 / 0, 1) - 1 = Infinity\<close>, not 0.
\<close>

theorem appreciation_unguarded:
  "annualizedReturn (calculateAppreciation (Fin 0) (Fin 100) (Fin 1)) = PInf"
  by (simp add: calculateAppreciation_def Let_def minus_jsnum_def)

text \<open>At purchase price 0 the annualized return is 0 for no finite value held for \<open>y > 0\<close> years.\<close>

lemma annualizedReturn_zero_purchase:
  assumes "0 < y"
  shows "annualizedReturn (calculateAppreciation (Fin 0) (Fin c) (Fin y)) \<noteq> Fin 0"
  using assms by (simp add: calculateAppreciation_def Let_def minus_jsnum_def)

end
